theory Spec2Isabelle
  imports Complex_Main "HOL-Library.Log_Nat"
begin

section \<open>Data model of the sentiment scorer\<close>

text \<open>
  The two functions of \<^verbatim>\<open>SentimentAnalyzer.tsx\<close> that carry logic are
  \<^verbatim>\<open>analyzeSentiment\<close> (the spec's classify) and \<^verbatim>\<open>getWordSentiments\<close>
  (the spec's tagWords). Both are closures over three word lists and both start from the
  same expression
  \<^verbatim>\<open>inputText.toLowerCase().replace(/[^\w\s]/g, '').split(/\s+/)\<close>.

  Conventions of the embedding:
  \<^item> a string is a \<open>string\<close>, each \<open>char\<close> read as the code point of the same number
    (U+0000 to U+00FF);
  \<^item> the counters are natural numbers; \<open>analyzeSentimentWith\<close> reads the arithmetic of
    the scores and the confidence exactly, and \<open>analyzeSentiment64With\<close> reads it in IEEE
    binary64, each operation rounded; the label, the counters, the word count and the
    tags are the same under both readings;
  \<^item> \<^verbatim>\<open>Date.now()\<close> is the parameter \<open>now\<close>.
\<close>

datatype Sentiment = Positive | Negative | Neutral

record SentimentResult =
  sentiment :: Sentiment
  confidence :: real
  positiveScore :: real
  negativeScore :: real
  neutralScore :: real
  wordCount :: nat
  timestamp :: int

record WordSentiment =
  word :: string
  sentiment :: Sentiment
  score :: int

section \<open>The word lists\<close>

definition positiveWords :: "string list" where
  "positiveWords =
    [''amazing'', ''awesome'', ''brilliant'', ''excellent'', ''fantastic'', ''great'', ''happy'',
     ''incredible'', ''love'', ''perfect'', ''wonderful'', ''good'', ''best'', ''beautiful'',
     ''outstanding'', ''superb'', ''magnificent'', ''delightful'', ''pleasant'', ''satisfied'',
     ''impressive'', ''remarkable'', ''exceptional'', ''marvelous'', ''terrific'', ''fabulous'',
     ''gorgeous'', ''splendid'', ''stellar'', ''phenomenal'', ''enjoy'', ''like'', ''appreciate'',
     ''adore'', ''treasure'', ''cherish'', ''celebrate'', ''success'', ''victory'', ''triumph'']"

definition negativeWords :: "string list" where
  "negativeWords =
    [''awful'', ''terrible'', ''horrible'', ''bad'', ''worst'', ''hate'', ''disgusting'',
     ''disappointing'', ''frustrating'', ''annoying'', ''angry'', ''sad'', ''depressing'',
     ''pathetic'', ''useless'', ''worthless'', ''dreadful'', ''appalling'', ''shocking'',
     ''disturbing'', ''offensive'', ''unacceptable'', ''ridiculous'', ''stupid'', ''idiotic'',
     ''dislike'', ''despise'', ''detest'', ''loathe'', ''failure'', ''disaster'', ''catastrophe'',
     ''nightmare'', ''regret'', ''mistake'', ''problem'', ''issue'', ''trouble'', ''difficulty'']"

definition neutralWords :: "string list" where
  "neutralWords =
    [''okay'', ''fine'', ''average'', ''normal'', ''standard'', ''typical'', ''usual'',
     ''regular'', ''common'', ''ordinary'', ''moderate'', ''fair'', ''decent'', ''adequate'']"

section \<open>String primitives\<close>

text \<open>
  \<^verbatim>\<open>\s\<close> and \<^verbatim>\<open>trim\<close> use the same set of white space; below U+0100 it is TAB, LF,
  VT, FF, CR, SPACE and NO-BREAK SPACE.
\<close>

definition isSpace :: "char \<Rightarrow> bool" where
  "isSpace c = (let n = (of_char c :: nat) in (9 \<le> n \<and> n \<le> 13) \<or> n = 32 \<or> n = 160)"

text \<open>
  \<^verbatim>\<open>\w\<close> without the unicode flag is \<^verbatim>\<open>[A-Za-z0-9_]\<close>; \<open>isUpper\<close> is the range
  \<^verbatim>\<open>[A-Z]\<close> of it.
\<close>

definition isWordChar :: "char \<Rightarrow> bool" where
  "isWordChar c =
    (let n = (of_char c :: nat)
     in (48 \<le> n \<and> n \<le> 57) \<or> (65 \<le> n \<and> n \<le> 90) \<or> n = 95 \<or> (97 \<le> n \<and> n \<le> 122))"


definition toLowerChar :: "char \<Rightarrow> char" where
  "toLowerChar c =
    (let n = (of_char c :: nat)
     in if (65 \<le> n \<and> n \<le> 90) \<or> (192 \<le> n \<and> n \<le> 222 \<and> n \<noteq> 215)
        then char_of (n + 32) else c)"

definition toLowerCase :: "string \<Rightarrow> string" where
  "toLowerCase s = map toLowerChar s"

text \<open>\<^verbatim>\<open>s.replace(/[^\w\s]/g, '')\<close> deletes every match, so it keeps the other characters.\<close>

definition stripPunct :: "string \<Rightarrow> string" where
  "stripPunct s = filter (\<lambda>c. isWordChar c \<or> isSpace c) s"

definition trim :: "string \<Rightarrow> string" where
  "trim s = rev (dropWhile isSpace (rev (dropWhile isSpace s)))"

text \<open>
  \<^verbatim>\<open>s.split(/\s+/)\<close>: the pieces of \<open>s\<close> between the maximal runs of white space. A run
  at the start or at the end of \<open>s\<close> leaves an empty piece on that side, and the empty
  string gives the one piece \<open>''''\<close>. The argument \<open>cur\<close> is the piece being read,
  reversed.
\<close>

function splitFrom :: "string \<Rightarrow> string \<Rightarrow> string list" where
  "splitFrom cur [] = [rev cur]"
| "splitFrom cur (c # cs) =
     (if isSpace c then rev cur # splitFrom [] (dropWhile isSpace cs)
      else splitFrom (c # cur) cs)"
  by pat_completeness auto
termination
  by (relation "measure (\<lambda>(cur, s). length s)")
     (auto simp: less_Suc_eq_le length_dropWhile_le)

definition splitSpaces :: "string \<Rightarrow> string list" where
  "splitSpaces s = splitFrom [] s"

text \<open>The expression both functions bind to \<^verbatim>\<open>words\<close>.\<close>

definition tokenize :: "string \<Rightarrow> string list" where
  "tokenize inputText = splitSpaces (stripPunct (toLowerCase inputText))"

section \<open>analyzeSentiment\<close>

text \<open>
  The body of \<^verbatim>\<open>words.forEach\<close>: one step on the three counters
  (positiveCount, negativeCount, neutralCount).
\<close>

definition countWord ::
  "string list \<Rightarrow> string list \<Rightarrow> string list \<Rightarrow> string \<Rightarrow> nat \<times> nat \<times> nat \<Rightarrow> nat \<times> nat \<times> nat" where
  "countWord pos neg neu w cnt =
    (case cnt of (positiveCount, negativeCount, neutralCount) \<Rightarrow>
      if w \<in> set pos then (positiveCount + 1, negativeCount, neutralCount)
      else if w \<in> set neg then (positiveCount, negativeCount + 1, neutralCount)
      else if w \<in> set neu then (positiveCount, negativeCount, neutralCount + 1)
      else (positiveCount, negativeCount, neutralCount))"

definition countWords ::
  "string list \<Rightarrow> string list \<Rightarrow> string list \<Rightarrow> string list \<Rightarrow> nat \<times> nat \<times> nat" where
  "countWords pos neg neu ws = fold (countWord pos neg neu) ws (0, 0, 0)"

text \<open>The label and the confidence, from the counters and \<^verbatim>\<open>totalWords\<close>.\<close>

definition decide :: "nat \<Rightarrow> nat \<Rightarrow> nat \<Rightarrow> nat \<Rightarrow> Sentiment \<times> real" where
  "decide positiveCount negativeCount neutralCount totalWords =
    (let totalSentimentWords = positiveCount + negativeCount + neutralCount
     in if positiveCount > negativeCount \<and> positiveCount > neutralCount
        then (Positive, min (9 / 10) ((real positiveCount / real totalWords) * 2))
        else if negativeCount > positiveCount \<and> negativeCount > neutralCount
        then (Negative, min (9 / 10) ((real negativeCount / real totalWords) * 2))
        else (Neutral,
              if totalSentimentWords = 0 then 1 / 2
              else min (8 / 10) (3 / 10 + (real neutralCount / real totalWords))))"

definition analyzeSentimentWith ::
  "string list \<Rightarrow> string list \<Rightarrow> string list \<Rightarrow> int \<Rightarrow> string \<Rightarrow> SentimentResult" where
  "analyzeSentimentWith pos neg neu now inputText =
    (if trim inputText = [] then
       \<lparr> SentimentResult.sentiment = Neutral, confidence = 0, positiveScore = 0,
         negativeScore = 0, neutralScore = 1, wordCount = 0, timestamp = now \<rparr>
     else
       let words = tokenize inputText;
           (positiveCount, negativeCount, neutralCount) = countWords pos neg neu words;
           totalWords = length words;
           (label, conf) = decide positiveCount negativeCount neutralCount totalWords;
           posScore = real positiveCount / real (max totalWords 1);
           negScore = real negativeCount / real (max totalWords 1);
           neuScore = 1 - posScore - negScore
       in \<lparr> SentimentResult.sentiment = label, confidence = conf, positiveScore = posScore,
            negativeScore = negScore, neutralScore = neuScore, wordCount = totalWords,
            timestamp = now \<rparr>)"

definition analyzeSentiment :: "int \<Rightarrow> string \<Rightarrow> SentimentResult" where
  "analyzeSentiment = analyzeSentimentWith positiveWords negativeWords neutralWords"

section \<open>getWordSentiments\<close>

definition tagWord :: "string list \<Rightarrow> string list \<Rightarrow> string list \<Rightarrow> string \<Rightarrow> WordSentiment" where
  "tagWord pos neg neu w =
    (if w \<in> set pos then \<lparr> word = w, sentiment = Positive, score = 1 \<rparr>
     else if w \<in> set neg then \<lparr> word = w, sentiment = Negative, score = - 1 \<rparr>
     else if w \<in> set neu then \<lparr> word = w, sentiment = Neutral, score = 0 \<rparr>
     else \<lparr> word = w, sentiment = Neutral, score = 0 \<rparr>)"

definition getWordSentimentsWith ::
  "string list \<Rightarrow> string list \<Rightarrow> string list \<Rightarrow> string \<Rightarrow> WordSentiment list" where
  "getWordSentimentsWith pos neg neu inputText = map (tagWord pos neg neu) (tokenize inputText)"

definition getWordSentiments :: "string \<Rightarrow> WordSentiment list" where
  "getWordSentiments = getWordSentimentsWith positiveWords negativeWords neutralWords"

section \<open>The tokenizer of the spec\<close>



section \<open>Arithmetic in binary64\<close>

text \<open>
  The numbers of the source are IEEE 754 binary64 values, and each of \<^verbatim>\<open>/\<close>, \<^verbatim>\<open>*\<close>,
  \<^verbatim>\<open>+\<close> and \<^verbatim>\<open>-\<close> returns the exact result rounded to the nearest binary64 value, a
  tie going to the even significand. \<open>fl\<close> is that rounding: \<open>expo x\<close> is the exponent
  of \<open>x\<close>, the integer \<open>e\<close> with \<open>2 ^ e \<le> x < 2 ^ (e + 1)\<close>; the spacing of the
  binary64 values around \<open>x\<close> is \<open>2 ^ (e - 52)\<close>, and \<open>2 ^ (- 1074)\<close> in the subnormal
  range. Overflow to infinity is not part of \<open>fl\<close>: no value rounded here exceeds 2 in
  magnitude. The counters are integers, which binary64 holds exactly below \<open>2 ^ 53\<close>.
\<close>

definition pow2 :: "int \<Rightarrow> real" where
  "pow2 e = (if 0 \<le> e then 2 ^ nat e else 1 / 2 ^ nat (- e))"

definition expo :: "real \<Rightarrow> int" where
  "expo x = (if 1 \<le> x then bitlen \<lfloor>x\<rfloor> - 1 else - bitlen (\<lceil>1 / x\<rceil> - 1))"

definition roundEven :: "real \<Rightarrow> int" where
  "roundEven y =
    (let f = \<lfloor>y\<rfloor>; d = y - of_int f
     in if d < 1 / 2 then f else if 1 / 2 < d then f + 1 else if even f then f else f + 1)"

definition fl :: "real \<Rightarrow> real" where
  "fl x =
    (if x = 0 then 0
     else let u = pow2 (max (expo \<bar>x\<bar> - 52) (- 1074))
          in sgn x * (of_int (roundEven (\<bar>x\<bar> / u)) * u))"

definition fdiv :: "real \<Rightarrow> real \<Rightarrow> real" where
  "fdiv a b = fl (a / b)"

definition fmul :: "real \<Rightarrow> real \<Rightarrow> real" where
  "fmul a b = fl (a * b)"

definition fadd :: "real \<Rightarrow> real \<Rightarrow> real" where
  "fadd a b = fl (a + b)"

definition fsub :: "real \<Rightarrow> real \<Rightarrow> real" where
  "fsub a b = fl (a - b)"

section \<open>analyzeSentiment in binary64\<close>

text \<open>
  \<open>analyzeSentimentWith\<close> above reads the arithmetic of lines 85 to 98 exactly. The same
  lines with every operation rounded as the source computes it: the literals
  \<^verbatim>\<open>0.9\<close>, \<^verbatim>\<open>0.8\<close> and \<^verbatim>\<open>0.3\<close> are the binary64 values nearest to them, \<^verbatim>\<open>0.5\<close>,
  \<^verbatim>\<open>1\<close> and \<^verbatim>\<open>2\<close> are exact, and \<^verbatim>\<open>1 - positiveScore - negativeScore\<close> is two
  subtractions from the left. The label, the word count and the guard do not depend on
  the rounding.
\<close>

definition decide64 :: "nat \<Rightarrow> nat \<Rightarrow> nat \<Rightarrow> nat \<Rightarrow> Sentiment \<times> real" where
  "decide64 positiveCount negativeCount neutralCount totalWords =
    (let totalSentimentWords = positiveCount + negativeCount + neutralCount
     in if positiveCount > negativeCount \<and> positiveCount > neutralCount
        then (Positive,
              min (fl (9 / 10)) (fmul (fdiv (real positiveCount) (real totalWords)) 2))
        else if negativeCount > positiveCount \<and> negativeCount > neutralCount
        then (Negative,
              min (fl (9 / 10)) (fmul (fdiv (real negativeCount) (real totalWords)) 2))
        else (Neutral,
              if totalSentimentWords = 0 then 1 / 2
              else min (fl (8 / 10))
                     (fadd (fl (3 / 10)) (fdiv (real neutralCount) (real totalWords)))))"

definition analyzeSentiment64With ::
  "string list \<Rightarrow> string list \<Rightarrow> string list \<Rightarrow> int \<Rightarrow> string \<Rightarrow> SentimentResult" where
  "analyzeSentiment64With pos neg neu now inputText =
    (if trim inputText = [] then
       \<lparr> SentimentResult.sentiment = Neutral, confidence = 0, positiveScore = 0,
         negativeScore = 0, neutralScore = 1, wordCount = 0, timestamp = now \<rparr>
     else
       let words = tokenize inputText;
           (positiveCount, negativeCount, neutralCount) = countWords pos neg neu words;
           totalWords = length words;
           (label, conf) = decide64 positiveCount negativeCount neutralCount totalWords;
           posScore = fdiv (real positiveCount) (real (max totalWords 1));
           negScore = fdiv (real negativeCount) (real (max totalWords 1));
           neuScore = fsub (fsub 1 posScore) negScore
       in \<lparr> SentimentResult.sentiment = label, confidence = conf, positiveScore = posScore,
            negativeScore = negScore, neutralScore = neuScore, wordCount = totalWords,
            timestamp = now \<rparr>)"

definition analyzeSentiment64 :: "int \<Rightarrow> string \<Rightarrow> SentimentResult" where
  "analyzeSentiment64 = analyzeSentiment64With positiveWords negativeWords neutralWords"

section \<open>Facts about the string primitives and the counting loop\<close>


lemma isSpace_toLowerChar: "isSpace (toLowerChar c) = isSpace c"
  by (auto simp: toLowerChar_def isSpace_def Let_def)


lemma splitFrom_not_Nil: "splitFrom cur s \<noteq> []"
  by (induction cur s rule: splitFrom.induct) auto



lemma dropWhile_all: "\<forall>x\<in>set xs. P x \<Longrightarrow> dropWhile P xs = []"
  by simp

lemma splitFrom_all_space:
  "\<forall>c\<in>set s. isSpace c \<Longrightarrow> splitFrom cur s = (if s = [] then [rev cur] else [rev cur, []])"
  by (cases s) (simp_all add: dropWhile_all)

lemma all_dropWhile: "(\<forall>c\<in>set (dropWhile P s). P c) = (\<forall>c\<in>set s. P c)"
  by (induction s) auto

lemma trim_Nil_iff: "trim s = [] \<longleftrightarrow> (\<forall>c\<in>set s. isSpace c)"
  by (simp add: trim_def all_dropWhile)

lemma fold_countWord:
  "fold (countWord pos neg neu) ws (a, b, c) =
    (a + length (filter (\<lambda>w. w \<in> set pos) ws),
     b + length (filter (\<lambda>w. w \<notin> set pos \<and> w \<in> set neg) ws),
     c + length (filter (\<lambda>w. w \<notin> set pos \<and> w \<notin> set neg \<and> w \<in> set neu) ws))"
  by (induction ws arbitrary: a b c) (auto simp: countWord_def)

lemma countWords_filter:
  "countWords pos neg neu ws =
    (length (filter (\<lambda>w. w \<in> set pos) ws),
     length (filter (\<lambda>w. w \<notin> set pos \<and> w \<in> set neg) ws),
     length (filter (\<lambda>w. w \<notin> set pos \<and> w \<notin> set neg \<and> w \<in> set neu) ws))"
  by (simp add: countWords_def fold_countWord)

lemma tokenize_all_space:
  assumes "trim inputText = []"
  shows "tokenize inputText = (if inputText = [] then [''''] else ['''', ''''])"
proof -
  from assms have sp: "\<forall>c\<in>set inputText. isSpace c" by (simp add: trim_Nil_iff)
  then have "toLowerCase inputText = inputText"
    by (auto simp: toLowerCase_def toLowerChar_def isSpace_def Let_def intro!: map_idI)
  moreover from sp have "stripPunct inputText = inputText"
    by (simp add: stripPunct_def)
  ultimately show ?thesis using sp
    by (simp add: tokenize_def splitSpaces_def splitFrom_all_space)
qed

lemma shipped_lists_disjoint:
  "set positiveWords \<inter> set negativeWords = {}"
  "set positiveWords \<inter> set neutralWords = {}"
  "set negativeWords \<inter> set neutralWords = {}"
  by code_simp+

lemma tokenize_not_Nil: "tokenize inputText \<noteq> []"
  by (simp add: tokenize_def splitSpaces_def splitFrom_not_Nil)

lemma tokenize_length_pos: "0 < length (tokenize inputText)"
  using tokenize_not_Nil [of inputText] by simp

lemma analyzeSentimentWith_nonempty:
  assumes "trim inputText \<noteq> []"
    and "countWords pos neg neu (tokenize inputText) = (pc, nc, uc)"
  shows "analyzeSentimentWith pos neg neu now inputText =
    \<lparr> SentimentResult.sentiment = fst (decide pc nc uc (length (tokenize inputText))),
      confidence = snd (decide pc nc uc (length (tokenize inputText))),
      positiveScore = real pc / real (length (tokenize inputText)),
      negativeScore = real nc / real (length (tokenize inputText)),
      neutralScore = 1 - real pc / real (length (tokenize inputText))
                       - real nc / real (length (tokenize inputText)),
      wordCount = length (tokenize inputText), timestamp = now \<rparr>"
proof -
  have m: "max (length (tokenize inputText)) (Suc 0) = length (tokenize inputText)"
    using tokenize_not_Nil [of inputText] by (cases "tokenize inputText") simp_all
  show ?thesis
    using assms by (simp add: analyzeSentimentWith_def Let_def m split: prod.split)
qed

lemma counts_le_length:
  assumes "countWords pos neg neu ws = (pc, nc, uc)"
  shows "pc + nc + uc \<le> length ws"
proof -
  have "length (filter (\<lambda>w. w \<in> set pos) ws)
      + length (filter (\<lambda>w. w \<notin> set pos \<and> w \<in> set neg) ws)
      + length (filter (\<lambda>w. w \<notin> set pos \<and> w \<notin> set neg \<and> w \<in> set neu) ws) \<le> length ws"
    by (induction ws) auto
  with assms show ?thesis by (simp add: countWords_filter)
qed

lemma decide_label:
  "fst (decide pc nc uc n) =
    (if pc > nc \<and> pc > uc then Positive else if nc > pc \<and> nc > uc then Negative else Neutral)"
  by (simp add: decide_def Let_def)

lemma decide_confidence:
  "snd (decide pc nc uc n) =
    (if pc > nc \<and> pc > uc then min (9 / 10) (real pc / real n * 2)
     else if nc > pc \<and> nc > uc then min (9 / 10) (real nc / real n * 2)
     else if pc + nc + uc = 0 then 1 / 2
     else min (8 / 10) (3 / 10 + real uc / real n))"
  by (simp add: decide_def Let_def)

lemma saturating_bounds:
  fixes q :: real
  assumes "0 \<le> q"
  shows "0 \<le> min (9 / 10) (q * 2)" "min (9 / 10) (q * 2) \<le> 9 / 10"
    "0 \<le> min (8 / 10) (3 / 10 + q)" "min (8 / 10) (3 / 10 + q) \<le> 8 / 10"
  using assms by (auto simp: min_def)

lemma decide_confidence_bounds:
  "0 \<le> snd (decide pc nc uc n) \<and> snd (decide pc nc uc n) \<le> 9 / 10
   \<and> (fst (decide pc nc uc n) = Neutral \<longrightarrow> snd (decide pc nc uc n) \<le> 8 / 10)"
proof -
  have q: "0 \<le> real k / real n" for k by simp
  consider (P) "pc > nc \<and> pc > uc"
    | (N) "\<not> (pc > nc \<and> pc > uc)" "nc > pc \<and> nc > uc"
    | (Z) "\<not> (pc > nc \<and> pc > uc)" "\<not> (nc > pc \<and> nc > uc)" "pc + nc + uc = 0"
    | (U) "\<not> (pc > nc \<and> pc > uc)" "\<not> (nc > pc \<and> nc > uc)" "pc + nc + uc \<noteq> 0"
    by blast
  then show ?thesis
  proof cases
    case P
    then have "snd (decide pc nc uc n) = min (9 / 10) (real pc / real n * 2)"
      and "fst (decide pc nc uc n) = Positive"
      by (simp_all add: decide_confidence decide_label)
    with saturating_bounds [OF q [of pc]] show ?thesis by simp
  next
    case N
    then have "snd (decide pc nc uc n) = min (9 / 10) (real nc / real n * 2)"
      and "fst (decide pc nc uc n) = Negative"
      by (simp_all add: decide_confidence decide_label)
    with saturating_bounds [OF q [of nc]] show ?thesis by simp
  next
    case Z
    then have "snd (decide pc nc uc n) = 1 / 2"
      by (simp add: decide_confidence)
    then show ?thesis by simp
  next
    case U
    then have "snd (decide pc nc uc n) = min (8 / 10) (3 / 10 + real uc / real n)"
      by (simp only: decide_confidence if_False)
    with saturating_bounds [OF q [of uc]] show ?thesis by simp
  qed
qed

section \<open>Facts about the rounding\<close>

lemma pow2_pos: "0 < pow2 e"
  by (simp add: pow2_def)

lemma pow2_nonpos: "k \<le> 0 \<Longrightarrow> pow2 k = 1 / 2 ^ nat (- k)"
  by (cases "k = 0") (simp_all add: pow2_def)

lemma roundEven_cases: "roundEven y = \<lfloor>y\<rfloor> \<or> (roundEven y = \<lfloor>y\<rfloor> + 1 \<and> 1 / 2 \<le> y - of_int \<lfloor>y\<rfloor>)"
  by (auto simp: roundEven_def Let_def)

lemma roundEven_error: "\<bar>of_int (roundEven y) - y\<bar> \<le> 1 / 2"
proof -
  have "of_int \<lfloor>y\<rfloor> \<le> y" and "y < of_int \<lfloor>y\<rfloor> + 1" by linarith+
  then show ?thesis
    by (auto simp: roundEven_def Let_def abs_le_iff)
qed

lemma roundEven_nonneg: "0 \<le> y \<Longrightarrow> 0 \<le> roundEven y"
  using roundEven_cases [of y] by (auto simp: zero_le_floor)

lemma roundEven_le_int:
  assumes "y \<le> of_int N"
  shows "roundEven y \<le> N"
proof -
  from assms have f: "\<lfloor>y\<rfloor> \<le> N" by (simp add: floor_le_iff)
  from roundEven_cases [of y] show ?thesis
  proof
    assume "roundEven y = \<lfloor>y\<rfloor>"
    with f show ?thesis by simp
  next
    assume a: "roundEven y = \<lfloor>y\<rfloor> + 1 \<and> 1 / 2 \<le> y - of_int \<lfloor>y\<rfloor>"
    then have "of_int \<lfloor>y\<rfloor> < y" by linarith
    with assms have "of_int \<lfloor>y\<rfloor> < (of_int N :: real)" by linarith
    then have "\<lfloor>y\<rfloor> < N" by simp
    with a show ?thesis by simp
  qed
qed

lemma expo_one: "expo 1 = 0"
  by (simp add: expo_def bitlen_alt_def)

lemma expo_below_one:
  assumes "0 < x" and "x < 1"
  shows "expo x \<le> - 1"
proof -
  from assms have "1 < 1 / x" by simp
  then have "2 \<le> \<lceil>1 / x\<rceil>" by linarith
  then have "1 \<le> \<lceil>1 / x\<rceil> - 1" by simp
  then have "1 \<le> bitlen (\<lceil>1 / x\<rceil> - 1)"
    using bitlen_eq_zero_iff [of "\<lceil>1 / x\<rceil> - 1"] bitlen_nonneg [of "\<lceil>1 / x\<rceil> - 1"]
    by linarith
  with assms show ?thesis by (simp add: expo_def)
qed

lemma of_int_two_power: "real_of_int (2 ^ k) = 2 ^ k"
  by simp

lemma expo_bounds:
  assumes "0 < x"
  shows "pow2 (expo x) \<le> x \<and> x < pow2 (expo x + 1)"
proof (cases "1 \<le> x")
  case True
  let ?n = "\<lfloor>x\<rfloor>"
  from True have n: "0 < ?n" by linarith
  from bitlen_bounds [OF n] have b: "2 ^ nat (bitlen ?n - 1) \<le> ?n" "?n < 2 ^ nat (bitlen ?n)"
    by simp_all
  from n have bl: "1 \<le> bitlen ?n"
    using bitlen_eq_zero_iff [of ?n] bitlen_nonneg [of ?n] by linarith
  have "real_of_int (2 ^ nat (bitlen ?n - 1)) \<le> real_of_int ?n"
    using b(1) by (simp only: of_int_le_iff)
  then have "(2::real) ^ nat (bitlen ?n - 1) \<le> real_of_int ?n"
    by (simp only: of_int_two_power)
  also have "\<dots> \<le> x" by (rule of_int_floor_le)
  finally have lo: "(2::real) ^ nat (bitlen ?n - 1) \<le> x" .
  from b(2) have "?n + 1 \<le> 2 ^ nat (bitlen ?n)" by simp
  then have "real_of_int (?n + 1) \<le> real_of_int (2 ^ nat (bitlen ?n))"
    by (simp only: of_int_le_iff)
  then have "real_of_int (?n + 1) \<le> 2 ^ nat (bitlen ?n)"
    by (simp only: of_int_two_power)
  moreover have "x < real_of_int (?n + 1)" by linarith
  ultimately have hi: "x < (2::real) ^ nat (bitlen ?n)" by (rule less_le_trans [rotated])
  from True bl lo hi show ?thesis
    by (simp add: expo_def pow2_def)
next
  case False
  let ?c = "\<lceil>1 / x\<rceil>"
  let ?b = "bitlen (?c - 1)"
  from False assms have x1: "1 < 1 / x" by simp
  then have c: "0 < ?c - 1" by linarith
  from bitlen_bounds [OF c] have b: "2 ^ nat (?b - 1) \<le> ?c - 1" "?c - 1 < 2 ^ nat ?b"
    by simp_all
  from c have bl: "1 \<le> ?b"
    using bitlen_eq_zero_iff [of "?c - 1"] bitlen_nonneg [of "?c - 1"] by linarith
  from b(2) have "?c \<le> 2 ^ nat ?b" by simp
  then have "real_of_int ?c \<le> real_of_int (2 ^ nat ?b)" by (simp only: of_int_le_iff)
  then have "real_of_int ?c \<le> 2 ^ nat ?b" by (simp only: of_int_two_power)
  moreover have "1 / x \<le> real_of_int ?c" by (rule le_of_int_ceiling)
  ultimately have "1 / x \<le> 2 ^ nat ?b" by (rule order_trans [rotated])
  with assms have lo: "1 / 2 ^ nat ?b \<le> x"
    by (simp add: field_simps)
  have "real_of_int (2 ^ nat (?b - 1)) \<le> real_of_int (?c - 1)"
    using b(1) by (simp only: of_int_le_iff)
  then have "(2::real) ^ nat (?b - 1) \<le> real_of_int (?c - 1)"
    by (simp only: of_int_two_power)
  moreover have "real_of_int (?c - 1) < 1 / x" by linarith
  ultimately have "(2::real) ^ nat (?b - 1) < 1 / x" by (rule le_less_trans)
  with assms have hi: "x < 1 / 2 ^ nat (?b - 1)"
    by (simp add: field_simps)
  have e: "expo x = - ?b" using False by (simp add: expo_def)
  have p1: "pow2 (- ?b) = 1 / 2 ^ nat ?b" using bl by (simp add: pow2_nonpos)
  have "nat (- (- ?b + 1)) = nat (?b - 1)" by simp
  then have p2: "pow2 (- ?b + 1) = 1 / 2 ^ nat (?b - 1)"
    using bl pow2_nonpos [of "- ?b + 1"] by simp
  from lo hi show ?thesis unfolding e p1 p2 by simp
qed

lemma fl_minus: "fl (- x) = - fl x"
  by (simp add: fl_def Let_def)

lemma fl_nonneg:
  assumes "0 \<le> x"
  shows "0 \<le> fl x"
proof (cases "x = 0")
  case True
  then show ?thesis by (simp add: fl_def)
next
  case False
  with assms have x: "0 < x" by simp
  let ?u = "pow2 (max (expo \<bar>x\<bar> - 52) (- 1074))"
  have "0 \<le> \<bar>x\<bar> / ?u" using pow2_pos [of "max (expo \<bar>x\<bar> - 52) (- 1074)"] by simp
  then have "0 \<le> roundEven (\<bar>x\<bar> / ?u)" by (rule roundEven_nonneg)
  then have "0 \<le> of_int (roundEven (\<bar>x\<bar> / ?u)) * ?u"
    using pow2_pos [of "max (expo \<bar>x\<bar> - 52) (- 1074)"] by simp
  with x show ?thesis by (simp add: fl_def Let_def)
qed

lemma fl_unit:
  assumes "0 \<le> x" and "x \<le> 1"
  shows "fl x \<le> 1" and "\<bar>fl x - x\<bar> \<le> 1 / 2 ^ 54"
proof -
  have "fl x \<le> 1 \<and> \<bar>fl x - x\<bar> \<le> 1 / 2 ^ 54"
  proof (cases "x = 0 \<or> x = 1")
    case True
    then show ?thesis
    proof
      assume "x = 0" then show ?thesis by (simp add: fl_def)
    next
      assume "x = 1"
      then show ?thesis
        by (simp add: fl_def Let_def expo_one pow2_def roundEven_def)
    qed
  next
    case False
    with assms have x: "0 < x" "x < 1" by simp_all
    define k where "k = max (expo x - 52) (- 1074)"
    define N :: nat where "N = nat (- k)"
    define m where "m = roundEven (x / pow2 k)"
    from expo_below_one [OF x] have k: "k \<le> - 53" by (simp add: k_def)
    then have u: "pow2 k = 1 / 2 ^ N" by (simp add: pow2_nonpos N_def)
    from k have N: "53 \<le> N" by (simp add: N_def)
    have "fl x = of_int m * pow2 k"
      using x by (simp add: fl_def Let_def k_def m_def)
    then have f: "fl x = of_int m / 2 ^ N" by (simp add: u)
    have y: "x / pow2 k = x * 2 ^ N" by (simp add: u)
    have "x * 2 ^ N \<le> of_int (2 ^ N)" using x by simp
    then have "m \<le> 2 ^ N" unfolding m_def y by (rule roundEven_le_int)
    then have "real_of_int m \<le> real_of_int (2 ^ N)" by (simp only: of_int_le_iff)
    then have le: "fl x \<le> 1" by (simp add: f field_simps)
    have r: "\<bar>of_int m - x * 2 ^ N\<bar> \<le> 1 / 2"
      using roundEven_error [of "x * 2 ^ N"] by (simp add: m_def y)
    have eq: "fl x - x = (of_int m - x * 2 ^ N) / 2 ^ N"
      by (simp add: f diff_divide_distrib)
    have ab: "\<bar>fl x - x\<bar> = \<bar>of_int m - x * 2 ^ N\<bar> / 2 ^ N"
      unfolding eq by simp
    have "\<bar>of_int m - x * 2 ^ N\<bar> / 2 ^ N \<le> (1 / 2) / 2 ^ N"
      by (rule divide_right_mono [OF r]) simp
    moreover have "(1 / 2) / (2::real) ^ N \<le> 1 / 2 ^ 54"
    proof -
      from N have "(2::real) ^ 54 \<le> 2 ^ Suc N" by (intro power_increasing) simp_all
      then show ?thesis by (simp add: field_simps)
    qed
    ultimately have "\<bar>fl x - x\<bar> \<le> 1 / 2 ^ 54" unfolding ab by (rule order_trans)
    with le show ?thesis by simp
  qed
  then show "fl x \<le> 1" and "\<bar>fl x - x\<bar> \<le> 1 / 2 ^ 54" by simp_all
qed

lemma fl_unit_signed:
  assumes "\<bar>x\<bar> \<le> 1"
  shows "fl x \<le> 1" and "\<bar>fl x - x\<bar> \<le> 1 / 2 ^ 54"
proof -
  have "fl x \<le> 1 \<and> \<bar>fl x - x\<bar> \<le> 1 / 2 ^ 54"
  proof (cases "0 \<le> x")
    case True
    with assms fl_unit [of x] show ?thesis by simp
  next
    case False
    with assms have n: "0 \<le> - x" "- x \<le> 1" by simp_all
    from fl_unit [OF n] have "- fl x \<le> 1" and e: "\<bar>- fl x + x\<bar> \<le> 1 / 2 ^ 54"
      by (simp_all add: fl_minus)
    have "\<bar>- fl x + x\<bar> = \<bar>fl x - x\<bar>" by (simp add: abs_minus_commute)
    with e have "\<bar>fl x - x\<bar> \<le> 1 / 2 ^ 54" by simp
    moreover from fl_nonneg [OF n(1)] have "fl x \<le> 1" by (simp add: fl_minus)
    ultimately show ?thesis by simp
  qed
  then show "fl x \<le> 1" and "\<bar>fl x - x\<bar> \<le> 1 / 2 ^ 54" by simp_all
qed

lemma fl_two: "fl 2 = 2"
  by code_simp

lemma fl_binade_error:
  assumes "1 < x" and "x < 2"
  shows "\<bar>fl x - x\<bar> \<le> 1 / 2 ^ 53"
proof -
  from assms have f: "\<lfloor>x\<rfloor> = 1" by linarith
  from assms have e: "expo x = 0" by (simp add: expo_def f bitlen_alt_def)
  define m where "m = roundEven (x * 2 ^ 52)"
  have "fl x = of_int m / 2 ^ 52"
    using assms by (simp add: fl_def Let_def e pow2_def m_def)
  then have eq: "fl x - x = (of_int m - x * 2 ^ 52) / 2 ^ 52"
    by (simp add: diff_divide_distrib)
  have ab: "\<bar>fl x - x\<bar> = \<bar>of_int m - x * 2 ^ 52\<bar> / 2 ^ 52"
    unfolding eq by simp
  have r: "\<bar>of_int m - x * 2 ^ 52\<bar> \<le> 1 / 2"
    using roundEven_error [of "x * 2 ^ 52"] by (simp add: m_def)
  have "\<bar>of_int m - x * 2 ^ 52\<bar> / 2 ^ 52 \<le> (1 / 2) / 2 ^ 52"
    by (rule divide_right_mono [OF r]) simp
  then show ?thesis unfolding ab by simp
qed

lemma fl_two_error:
  assumes "\<bar>x\<bar> \<le> 2"
  shows "\<bar>fl x - x\<bar> \<le> 1 / 2 ^ 53"
proof -
  have pos: "\<bar>fl y - y\<bar> \<le> 1 / 2 ^ 53" if "0 \<le> y" "y \<le> 2" for y
  proof -
    from that have "y \<le> 1 \<or> (1 < y \<and> y < 2) \<or> y = 2" by linarith
    then consider "y \<le> 1" | "1 < y" "y < 2" | "y = 2" by blast
    then show ?thesis
    proof cases
      case 1
      with that fl_unit(2) [of y] have "\<bar>fl y - y\<bar> \<le> 1 / 2 ^ 54" by simp
      moreover have "(1::real) / 2 ^ 54 \<le> 1 / 2 ^ 53" by simp
      ultimately show ?thesis by (rule order_trans)
    next
      case 2
      then show ?thesis by (rule fl_binade_error)
    next
      case 3
      then show ?thesis by (simp add: fl_two)
    qed
  qed
  show ?thesis
  proof (cases "0 \<le> x")
    case True
    with assms pos [of x] show ?thesis by simp
  next
    case False
    with assms have "0 \<le> - x" "- x \<le> 2" by simp_all
    from pos [OF this] have e: "\<bar>- fl x + x\<bar> \<le> 1 / 2 ^ 53" by (simp add: fl_minus)
    have "\<bar>- fl x + x\<bar> = \<bar>fl x - x\<bar>" by (simp add: abs_minus_commute)
    with e show ?thesis by simp
  qed
qed

section \<open>The label\<close>

text \<open>
  C1. When the trimmed input is not empty, the label of \<open>analyzeSentiment\<close> is positive
  exactly when positiveCount exceeds both other counters, negative exactly when
  negativeCount exceeds both other counters, and neutral in every other case, which
  covers every tie and every neutral-dominant count. The counters are those of the
  \<^verbatim>\<open>forEach\<close> loop over the tokens.
\<close>

theorem label_is_strict_majority:
  assumes "trim inputText \<noteq> []"
    and "countWords positiveWords negativeWords neutralWords (tokenize inputText)
          = (positiveCount, negativeCount, neutralCount)"
  shows "(SentimentResult.sentiment (analyzeSentiment now inputText) = Positive
            \<longleftrightarrow> positiveCount > negativeCount \<and> positiveCount > neutralCount)
       \<and> (SentimentResult.sentiment (analyzeSentiment now inputText) = Negative
            \<longleftrightarrow> negativeCount > positiveCount \<and> negativeCount > neutralCount)
       \<and> (SentimentResult.sentiment (analyzeSentiment now inputText) = Neutral
            \<longleftrightarrow> \<not> (positiveCount > negativeCount \<and> positiveCount > neutralCount)
              \<and> \<not> (negativeCount > positiveCount \<and> negativeCount > neutralCount))"
  unfolding analyzeSentiment_def analyzeSentimentWith_nonempty [OF assms]
  by (simp add: decide_label)

text \<open>The tie of the spec's example: \<^verbatim>\<open>"good bad"\<close> has the counters 1, 1, 0 and is neutral.\<close>

theorem label_is_strict_majority_witness:
  "trim ''good bad'' \<noteq> []
   \<and> countWords positiveWords negativeWords neutralWords (tokenize ''good bad'') = (1, 1, 0)
   \<and> SentimentResult.sentiment (analyzeSentiment 0 ''good bad'') = Neutral"
proof -
  have h1: "trim ''good bad'' \<noteq> []" by code_simp
  have h2: "countWords positiveWords negativeWords neutralWords (tokenize ''good bad'') = (1, 1, 0)"
    by code_simp
  from label_is_strict_majority [OF h1 h2, of 0] h1 h2 show ?thesis by simp
qed

section \<open>The empty-input default\<close>

text \<open>
  C2. An input whose trim is empty gets the fixed default result: neutral, confidence 0,
  positiveScore 0, negativeScore 0, neutralScore 1, wordCount 0, and the time of the call.
\<close>

theorem empty_input_default:
  assumes "trim inputText = []"
  shows "analyzeSentiment now inputText =
    \<lparr> SentimentResult.sentiment = Neutral, confidence = 0, positiveScore = 0,
      negativeScore = 0, neutralScore = 1, wordCount = 0, timestamp = now \<rparr>"
  using assms by (simp add: analyzeSentiment_def analyzeSentimentWith_def)

text \<open>The inputs \<^verbatim>\<open>""\<close> and \<^verbatim>\<open>"   "\<close>.\<close>

theorem empty_input_default_witness:
  "trim '''' = [] \<and> trim ''   '' = []
   \<and> analyzeSentiment 7 '''' =
      \<lparr> SentimentResult.sentiment = Neutral, confidence = 0, positiveScore = 0,
        negativeScore = 0, neutralScore = 1, wordCount = 0, timestamp = 7 \<rparr>
   \<and> analyzeSentiment 7 ''   '' =
      \<lparr> SentimentResult.sentiment = Neutral, confidence = 0, positiveScore = 0,
        negativeScore = 0, neutralScore = 1, wordCount = 0, timestamp = 7 \<rparr>"
proof -
  have h1: "trim '''' = []" by code_simp
  have h2: "trim ''   '' = []" by code_simp
  from empty_input_default [OF h1, of 7] empty_input_default [OF h2, of 7] h1 h2
  show ?thesis by simp
qed

section \<open>The confidence\<close>

lemma empty_word_unlisted:
  "[] \<notin> set positiveWords" "[] \<notin> set negativeWords" "[] \<notin> set neutralWords"
  by (simp_all add: positiveWords_def negativeWords_def neutralWords_def)

lemma countWords_all_space:
  assumes "trim inputText = []"
  shows "countWords positiveWords negativeWords neutralWords (tokenize inputText) = (0, 0, 0)"
  by (simp add: tokenize_all_space [OF assms] countWords_filter empty_word_unlisted)

text \<open>
  C3. When the trimmed input is not empty, the confidence is
  \<open>min 0.9 (positiveCount / totalWords * 2)\<close> under the positive label,
  \<open>min 0.9 (negativeCount / totalWords * 2)\<close> under the negative label, \<open>0.5\<close> under
  the neutral label when the three counters are all zero, and
  \<open>min 0.8 (0.3 + neutralCount / totalWords)\<close> under the neutral label otherwise. So it
  lies between 0 and 0.9, and is at most 0.8 under the neutral label.
\<close>

theorem confidence_formula:
  assumes "trim inputText \<noteq> []"
    and "countWords positiveWords negativeWords neutralWords (tokenize inputText)
          = (positiveCount, negativeCount, neutralCount)"
  shows "(SentimentResult.sentiment (analyzeSentiment now inputText) = Positive \<longrightarrow>
            confidence (analyzeSentiment now inputText)
              = min (9 / 10) ((real positiveCount / real (length (tokenize inputText))) * 2))
       \<and> (SentimentResult.sentiment (analyzeSentiment now inputText) = Negative \<longrightarrow>
            confidence (analyzeSentiment now inputText)
              = min (9 / 10) ((real negativeCount / real (length (tokenize inputText))) * 2))
       \<and> (SentimentResult.sentiment (analyzeSentiment now inputText) = Neutral
            \<and> positiveCount + negativeCount + neutralCount = 0 \<longrightarrow>
            confidence (analyzeSentiment now inputText) = 1 / 2)
       \<and> (SentimentResult.sentiment (analyzeSentiment now inputText) = Neutral
            \<and> positiveCount + negativeCount + neutralCount \<noteq> 0 \<longrightarrow>
            confidence (analyzeSentiment now inputText)
              = min (8 / 10) (3 / 10 + (real neutralCount / real (length (tokenize inputText)))))
       \<and> 0 \<le> confidence (analyzeSentiment now inputText)
       \<and> confidence (analyzeSentiment now inputText) \<le> 9 / 10
       \<and> (SentimentResult.sentiment (analyzeSentiment now inputText) = Neutral \<longrightarrow>
            confidence (analyzeSentiment now inputText) \<le> 8 / 10)"
proof -
  let ?n = "length (tokenize inputText)"
  have s: "SentimentResult.sentiment (analyzeSentiment now inputText)
            = fst (decide positiveCount negativeCount neutralCount ?n)"
    and c: "confidence (analyzeSentiment now inputText)
            = snd (decide positiveCount negativeCount neutralCount ?n)"
    unfolding analyzeSentiment_def analyzeSentimentWith_nonempty [OF assms] by simp_all
  have formula: "(fst (decide positiveCount negativeCount neutralCount ?n) = Positive \<longrightarrow>
          snd (decide positiveCount negativeCount neutralCount ?n)
            = min (9 / 10) (real positiveCount / real ?n * 2))
       \<and> (fst (decide positiveCount negativeCount neutralCount ?n) = Negative \<longrightarrow>
          snd (decide positiveCount negativeCount neutralCount ?n)
            = min (9 / 10) (real negativeCount / real ?n * 2))
       \<and> (fst (decide positiveCount negativeCount neutralCount ?n) = Neutral
            \<and> positiveCount + negativeCount + neutralCount = 0 \<longrightarrow>
          snd (decide positiveCount negativeCount neutralCount ?n) = 1 / 2)
       \<and> (fst (decide positiveCount negativeCount neutralCount ?n) = Neutral
            \<and> positiveCount + negativeCount + neutralCount \<noteq> 0 \<longrightarrow>
          snd (decide positiveCount negativeCount neutralCount ?n)
            = min (8 / 10) (3 / 10 + real neutralCount / real ?n))"
    by (simp add: decide_label decide_confidence)
  show ?thesis
    unfolding s c
    using formula decide_confidence_bounds [of positiveCount negativeCount neutralCount ?n]
    by blast
qed

text \<open>A saturated positive input and a tie with lexicon hits.\<close>

theorem confidence_formula_witness:
  "trim ''amazing wonderful great'' \<noteq> []
   \<and> countWords positiveWords negativeWords neutralWords (tokenize ''amazing wonderful great'')
       = (3, 0, 0)
   \<and> SentimentResult.sentiment (analyzeSentiment 0 ''amazing wonderful great'') = Positive
   \<and> confidence (analyzeSentiment 0 ''amazing wonderful great'') = 9 / 10
   \<and> trim ''good bad'' \<noteq> []
   \<and> countWords positiveWords negativeWords neutralWords (tokenize ''good bad'') = (1, 1, 0)
   \<and> SentimentResult.sentiment (analyzeSentiment 0 ''good bad'') = Neutral
   \<and> confidence (analyzeSentiment 0 ''good bad'') = 3 / 10"
proof -
  have a1: "trim ''amazing wonderful great'' \<noteq> []" by code_simp
  have a2: "countWords positiveWords negativeWords neutralWords
              (tokenize ''amazing wonderful great'') = (3, 0, 0)" by code_simp
  have a3: "SentimentResult.sentiment (analyzeSentiment 0 ''amazing wonderful great'') = Positive"
    by code_simp
  have a4: "length (tokenize ''amazing wonderful great'') = 3" by code_simp
  have b1: "trim ''good bad'' \<noteq> []" by code_simp
  have b2: "countWords positiveWords negativeWords neutralWords (tokenize ''good bad'') = (1, 1, 0)"
    by code_simp
  have b3: "SentimentResult.sentiment (analyzeSentiment 0 ''good bad'') = Neutral"
    by code_simp
  have b4: "length (tokenize ''good bad'') = 2" by code_simp
  from confidence_formula [OF a1 a2, of 0] a3 a4
  have "confidence (analyzeSentiment 0 ''amazing wonderful great'') = 9 / 10" by simp
  moreover from confidence_formula [OF b1 b2, of 0] b3 b4
  have "confidence (analyzeSentiment 0 ''good bad'') = 3 / 10" by simp
  ultimately show ?thesis using a1 a2 a3 b1 b2 b3 by simp
qed

section \<open>Facts about analyzeSentiment in binary64\<close>

lemma analyzeSentiment64With_nonempty:
  assumes "trim inputText \<noteq> []"
    and "countWords pos neg neu (tokenize inputText) = (pc, nc, uc)"
  shows "analyzeSentiment64With pos neg neu now inputText =
    \<lparr> SentimentResult.sentiment = fst (decide64 pc nc uc (length (tokenize inputText))),
      confidence = snd (decide64 pc nc uc (length (tokenize inputText))),
      positiveScore = fdiv (real pc) (real (length (tokenize inputText))),
      negativeScore = fdiv (real nc) (real (length (tokenize inputText))),
      neutralScore = fsub (fsub 1 (fdiv (real pc) (real (length (tokenize inputText)))))
                       (fdiv (real nc) (real (length (tokenize inputText)))),
      wordCount = length (tokenize inputText), timestamp = now \<rparr>"
proof -
  have m: "max (length (tokenize inputText)) (Suc 0) = length (tokenize inputText)"
    using tokenize_not_Nil [of inputText] by (cases "tokenize inputText") simp_all
  show ?thesis
    using assms by (simp add: analyzeSentiment64With_def Let_def m split: prod.split)
qed

lemma share_unit:
  assumes "k \<le> n" and "0 < n"
  shows "0 \<le> real k / real n" and "real k / real n \<le> 1"
  using assms by simp_all

lemma fdiv_share:
  assumes "k \<le> n" and "0 < n"
  shows "0 \<le> fdiv (real k) (real n)" and "fdiv (real k) (real n) \<le> 1"
    and "\<bar>fdiv (real k) (real n) - real k / real n\<bar> \<le> 1 / 2 ^ 54"
  unfolding fdiv_def
  using fl_nonneg [OF share_unit(1) [OF assms]] fl_unit [OF share_unit [OF assms]]
  by simp_all

text \<open>The residual of two shares whose exact sum is at most 1.\<close>

lemma residual_bounds:
  fixes p q ps ns :: real
  assumes p: "0 \<le> p" and q: "0 \<le> q" and pq: "p + q \<le> 1"
    and ps: "0 \<le> ps" "ps \<le> 1" "\<bar>ps - p\<bar> \<le> 1 / 2 ^ 54"
    and ns: "0 \<le> ns" "ns \<le> 1" "\<bar>ns - q\<bar> \<le> 1 / 2 ^ 54"
  shows "fsub (fsub 1 ps) ns \<le> 1"
    and "- (1 / 2 ^ 52) \<le> fsub (fsub 1 ps) ns"
    and "\<bar>ps + ns + fsub (fsub 1 ps) ns - 1\<bar> \<le> 1 / 2 ^ 53"
proof -
  define t where "t = fsub 1 ps"
  define u where "u = fsub t ns"
  from ps have a: "0 \<le> 1 - ps" "1 - ps \<le> 1" by simp_all
  have t0: "0 \<le> t" unfolding t_def fsub_def by (rule fl_nonneg [OF a(1)])
  have t1: "t \<le> 1" and te: "\<bar>t - (1 - ps)\<bar> \<le> 1 / 2 ^ 54"
    unfolding t_def fsub_def using fl_unit [OF a] by simp_all
  from t0 t1 ns have v: "\<bar>t - ns\<bar> \<le> 1" by (simp add: abs_le_iff)
  have u1: "u \<le> 1" and ue: "\<bar>u - (t - ns)\<bar> \<le> 1 / 2 ^ 54"
    unfolding u_def fsub_def using fl_unit_signed [OF v] by simp_all
  have e53: "(1::real) / 2 ^ 54 + 1 / 2 ^ 54 = 1 / 2 ^ 53" by simp
  have e52: "(1::real) / 2 ^ 54 + 1 / 2 ^ 54 + 1 / 2 ^ 54 + 1 / 2 ^ 54 = 1 / 2 ^ 52" by simp
  have "\<bar>ps + ns + u - 1\<bar> \<le> \<bar>u - (t - ns)\<bar> + \<bar>t - (1 - ps)\<bar>" by linarith
  also have "\<dots> \<le> 1 / 2 ^ 54 + 1 / 2 ^ 54" using ue te by linarith
  finally have s: "\<bar>ps + ns + u - 1\<bar> \<le> 1 / 2 ^ 53" unfolding e53 .
  have "- (1 / 2 ^ 54 + 1 / 2 ^ 54 + 1 / 2 ^ 54 + 1 / 2 ^ 54) \<le> u"
    using ue te ps(3) ns(3) pq by linarith
  then have lo: "- (1 / 2 ^ 52) \<le> u" unfolding e52 .
  from u1 lo s show "fsub (fsub 1 ps) ns \<le> 1"
    and "- (1 / 2 ^ 52) \<le> fsub (fsub 1 ps) ns"
    and "\<bar>ps + ns + fsub (fsub 1 ps) ns - 1\<bar> \<le> 1 / 2 ^ 53"
    unfolding u_def t_def by simp_all
qed

lemma binary64_sum_bound:
  fixes p q ps ns :: real
  assumes p: "0 \<le> p" and q: "0 \<le> q" and pq: "p + q \<le> 1"
    and ps: "0 \<le> ps" "ps \<le> 1" "\<bar>ps - p\<bar> \<le> 1 / 2 ^ 54"
    and ns: "0 \<le> ns" "ns \<le> 1" "\<bar>ns - q\<bar> \<le> 1 / 2 ^ 54"
  shows "\<bar>fadd (fadd ps ns) (fsub (fsub 1 ps) ns) - 1\<bar> \<le> 1 / 2 ^ 51"
proof -
  define u where "u = fsub (fsub 1 ps) ns"
  define s where "s = fadd ps ns"
  note rb = residual_bounds [OF p q pq ps ns]
  have su: "\<bar>ps + ns + u - 1\<bar> \<le> 1 / 2 ^ 53" using rb(3) by (simp add: u_def)
  from ps ns have "\<bar>ps + ns\<bar> \<le> 2" by simp
  from fl_two_error [OF this] have se: "\<bar>s - (ps + ns)\<bar> \<le> 1 / 2 ^ 53"
    by (simp add: s_def fadd_def)
  have small: "(1::real) / 2 ^ 53 + 1 / 2 ^ 53 \<le> 1" by simp
  have "\<bar>s + u\<bar> \<le> 1 + (1 / 2 ^ 53 + 1 / 2 ^ 53)" using su se by linarith
  with small have "\<bar>s + u\<bar> \<le> 2" by linarith
  from fl_two_error [OF this] have te: "\<bar>fadd s u - (s + u)\<bar> \<le> 1 / 2 ^ 53"
    by (simp add: fadd_def)
  have e51: "(1::real) / 2 ^ 53 + 1 / 2 ^ 53 + 1 / 2 ^ 53 \<le> 1 / 2 ^ 51" by simp
  have "\<bar>fadd s u - 1\<bar> \<le> 1 / 2 ^ 53 + 1 / 2 ^ 53 + 1 / 2 ^ 53"
    using su se te by linarith
  then have "\<bar>fadd s u - 1\<bar> \<le> 1 / 2 ^ 51" using e51 by (rule order_trans)
  then show ?thesis by (simp add: s_def u_def)
qed

lemma counts_shares:
  assumes "countWords pos neg neu ws = (pc, nc, uc)" and "ws \<noteq> []"
  shows "pc \<le> length ws" "nc \<le> length ws" "uc \<le> length ws" "0 < length ws"
    "real pc / real (length ws) + real nc / real (length ws) \<le> 1"
proof -
  from counts_le_length [OF assms(1)] have le: "pc + nc + uc \<le> length ws" .
  then show "pc \<le> length ws" "nc \<le> length ws" "uc \<le> length ws" by simp_all
  from assms(2) show pos: "0 < length ws" by simp
  from le have "real (pc + nc) \<le> real (length ws)" by simp
  then have "(real pc + real nc) / real (length ws) \<le> 1" using pos by simp
  then show "real pc / real (length ws) + real nc / real (length ws) \<le> 1"
    by (simp only: add_divide_distrib)
qed

lemma literal_unit: "0 \<le> fl (9 / 10)" "fl (9 / 10) \<le> 1" "0 \<le> fl (8 / 10)" "fl (8 / 10) \<le> 1"
  using fl_nonneg [of "9 / 10"] fl_unit(1) [of "9 / 10"] fl_nonneg [of "8 / 10"]
    fl_unit(1) [of "8 / 10"] by simp_all

lemma decide64_label: "fst (decide64 pc nc uc n) = fst (decide pc nc uc n)"
  by (simp add: decide64_def decide_def Let_def)

lemma min_unit:
  fixes a b :: real
  assumes "0 \<le> a" and "a \<le> 1" and "0 \<le> b"
  shows "0 \<le> min a b \<and> min a b \<le> 1"
  using assms by (auto simp: min_def)

lemma decide64_confidence:
  "snd (decide64 pc nc uc n) =
    (if pc > nc \<and> pc > uc then min (fl (9 / 10)) (fmul (fdiv (real pc) (real n)) 2)
     else if nc > pc \<and> nc > uc then min (fl (9 / 10)) (fmul (fdiv (real nc) (real n)) 2)
     else if pc + nc + uc = 0 then 1 / 2
     else min (fl (8 / 10)) (fadd (fl (3 / 10)) (fdiv (real uc) (real n))))"
  by (simp add: decide64_def Let_def)

lemma decide64_confidence_bounds:
  "0 \<le> snd (decide64 pc nc uc n) \<and> snd (decide64 pc nc uc n) \<le> 1"
proof -
  have q: "0 \<le> fmul (fdiv (real k) (real n)) 2" for k
    unfolding fmul_def fdiv_def by (intro fl_nonneg mult_nonneg_nonneg) simp_all
  have r: "0 \<le> fadd (fl (3 / 10)) (fdiv (real k) (real n))" for k
    unfolding fadd_def fdiv_def by (intro fl_nonneg add_nonneg_nonneg) simp_all
  consider (P) "pc > nc \<and> pc > uc"
    | (N) "\<not> (pc > nc \<and> pc > uc)" "nc > pc \<and> nc > uc"
    | (Z) "\<not> (pc > nc \<and> pc > uc)" "\<not> (nc > pc \<and> nc > uc)" "pc + nc + uc = 0"
    | (U) "\<not> (pc > nc \<and> pc > uc)" "\<not> (nc > pc \<and> nc > uc)" "pc + nc + uc \<noteq> 0"
    by blast
  then show ?thesis
  proof cases
    case P
    then have "snd (decide64 pc nc uc n) = min (fl (9 / 10)) (fmul (fdiv (real pc) (real n)) 2)"
      by (simp add: decide64_confidence)
    with min_unit [OF literal_unit(1) literal_unit(2) q [of pc]] show ?thesis by simp
  next
    case N
    then have "snd (decide64 pc nc uc n) = min (fl (9 / 10)) (fmul (fdiv (real nc) (real n)) 2)"
      by (simp add: decide64_confidence)
    with min_unit [OF literal_unit(1) literal_unit(2) q [of nc]] show ?thesis by simp
  next
    case Z
    then have "snd (decide64 pc nc uc n) = 1 / 2"
      by (simp add: decide64_confidence)
    then show ?thesis by simp
  next
    case U
    then have "snd (decide64 pc nc uc n)
        = min (fl (8 / 10)) (fadd (fl (3 / 10)) (fdiv (real uc) (real n)))"
      by (simp only: decide64_confidence if_False)
    with min_unit [OF literal_unit(3) literal_unit(4) r [of uc]] show ?thesis by simp
  qed
qed

lemma fl_one: "fl 1 = 1"
  by (simp add: fl_def Let_def expo_one pow2_def roundEven_def)

lemma binary64_same_label_and_count:
  "SentimentResult.sentiment (analyzeSentiment64 now inputText)
     = SentimentResult.sentiment (analyzeSentiment now inputText)"
  "wordCount (analyzeSentiment64 now inputText) = wordCount (analyzeSentiment now inputText)"
  "timestamp (analyzeSentiment64 now inputText) = timestamp (analyzeSentiment now inputText)"
proof -
  obtain pc nc uc where
    cnt: "countWords positiveWords negativeWords neutralWords (tokenize inputText) = (pc, nc, uc)"
    by (cases "countWords positiveWords negativeWords neutralWords (tokenize inputText)") auto
  have "SentimentResult.sentiment (analyzeSentiment64 now inputText)
     = SentimentResult.sentiment (analyzeSentiment now inputText)
    \<and> wordCount (analyzeSentiment64 now inputText) = wordCount (analyzeSentiment now inputText)
    \<and> timestamp (analyzeSentiment64 now inputText) = timestamp (analyzeSentiment now inputText)"
  proof (cases "trim inputText = []")
    case True
    then show ?thesis
      by (simp add: analyzeSentiment64_def analyzeSentiment64With_def analyzeSentiment_def
          analyzeSentimentWith_def)
  next
    case False
    show ?thesis
      unfolding analyzeSentiment64_def analyzeSentiment_def
        analyzeSentiment64With_nonempty [OF False cnt] analyzeSentimentWith_nonempty [OF False cnt]
      by (simp add: decide64_label)
  qed
  then show "SentimentResult.sentiment (analyzeSentiment64 now inputText)
     = SentimentResult.sentiment (analyzeSentiment now inputText)"
    "wordCount (analyzeSentiment64 now inputText) = wordCount (analyzeSentiment now inputText)"
    "timestamp (analyzeSentiment64 now inputText) = timestamp (analyzeSentiment now inputText)"
    by simp_all
qed

section \<open>The score breakdown\<close>

text \<open>
  In binary64 the three scores need not add up to 1. With three positive and two
  negative words among seven tokens the three returned values add up to
  \<open>1 - 2 ^ (- 54)\<close>, and their sum computed in binary64 is \<open>1 - 2 ^ (- 53)\<close>, the
  \<^verbatim>\<open>0.9999999999999999\<close> that \<^verbatim>\<open>positiveScore + negativeScore + neutralScore\<close> prints.
\<close>

theorem scores_sum_counterexample:
  "positiveScore (analyzeSentiment64 0 ''good good good bad bad x y'')
     + negativeScore (analyzeSentiment64 0 ''good good good bad bad x y'')
     + neutralScore (analyzeSentiment64 0 ''good good good bad bad x y'') = 1 - 1 / 2 ^ 54
   \<and> fadd (fadd (positiveScore (analyzeSentiment64 0 ''good good good bad bad x y''))
               (negativeScore (analyzeSentiment64 0 ''good good good bad bad x y'')))
          (neutralScore (analyzeSentiment64 0 ''good good good bad bad x y'')) = 1 - 1 / 2 ^ 53"
proof -
  have r: "analyzeSentiment64 0 ''good good good bad bad x y'' =
    \<lparr> SentimentResult.sentiment = Positive,
      confidence = 7720456504063707 / 9007199254740992,
      positiveScore = 7720456504063707 / 18014398509481984,
      negativeScore = 2573485501354569 / 9007199254740992,
      neutralScore = 2573485501354569 / 9007199254740992,
      wordCount = 7, timestamp = 0 \<rparr>"
    by code_simp
  have f: "fadd (fadd (7720456504063707 / 18014398509481984)
                      (2573485501354569 / 9007199254740992))
                (2573485501354569 / 9007199254740992) = 1 - 1 / 2 ^ 53"
    by code_simp
  show ?thesis unfolding r using f by simp
qed

text \<open>
  C4, in binary64. For every input the three scores add up to 1 within \<open>2 ^ (- 53)\<close>,
  which is within the tolerance \<open>10 ^ (- 9)\<close> of the spec, and their sum computed in
  binary64 is 1 within \<open>2 ^ (- 51)\<close>; positiveScore and negativeScore are the binary64
  quotients of the positive and negative counters by the number of tokens, and
  neutralScore is the binary64 residual \<open>1 - positiveScore - negativeScore\<close>. For an
  input whose trim is empty neutralScore is 1 and the sum is 1.
\<close>

theorem scores_sum_within_tolerance:
  assumes "countWords positiveWords negativeWords neutralWords (tokenize inputText)
            = (positiveCount, negativeCount, neutralCount)"
  shows "\<bar>positiveScore (analyzeSentiment64 now inputText)
            + negativeScore (analyzeSentiment64 now inputText)
            + neutralScore (analyzeSentiment64 now inputText) - 1\<bar> \<le> 1 / 2 ^ 53
       \<and> \<bar>positiveScore (analyzeSentiment64 now inputText)
            + negativeScore (analyzeSentiment64 now inputText)
            + neutralScore (analyzeSentiment64 now inputText) - 1\<bar> \<le> 1 / 10 ^ 9
       \<and> \<bar>fadd (fadd (positiveScore (analyzeSentiment64 now inputText))
                     (negativeScore (analyzeSentiment64 now inputText)))
                (neutralScore (analyzeSentiment64 now inputText)) - 1\<bar> \<le> 1 / 2 ^ 51
       \<and> positiveScore (analyzeSentiment64 now inputText)
            = fdiv (real positiveCount) (real (length (tokenize inputText)))
       \<and> negativeScore (analyzeSentiment64 now inputText)
            = fdiv (real negativeCount) (real (length (tokenize inputText)))
       \<and> neutralScore (analyzeSentiment64 now inputText)
            = fsub (fsub 1 (positiveScore (analyzeSentiment64 now inputText)))
                (negativeScore (analyzeSentiment64 now inputText))
       \<and> (trim inputText = [] \<longrightarrow>
            neutralScore (analyzeSentiment64 now inputText) = 1
            \<and> positiveScore (analyzeSentiment64 now inputText)
                + negativeScore (analyzeSentiment64 now inputText)
                + neutralScore (analyzeSentiment64 now inputText) = 1)"
proof -
  let ?n = "length (tokenize inputText)"
  let ?r = "analyzeSentiment64 now inputText"
  have tol: "(1::real) / 2 ^ 53 \<le> 1 / 10 ^ 9" by simp
  have fields: "positiveScore ?r = fdiv (real positiveCount) (real ?n)
      \<and> negativeScore ?r = fdiv (real negativeCount) (real ?n)
      \<and> neutralScore ?r = fsub (fsub 1 (positiveScore ?r)) (negativeScore ?r)
      \<and> (trim inputText = [] \<longrightarrow> neutralScore ?r = 1
            \<and> positiveScore ?r + negativeScore ?r + neutralScore ?r = 1)"
  proof (cases "trim inputText = []")
    case True
    from countWords_all_space [OF True] assms
    have "positiveCount = 0" and "negativeCount = 0" by simp_all
    with True show ?thesis
      by (simp add: analyzeSentiment64_def analyzeSentiment64With_def fdiv_def fsub_def
          fl_def [of 0] fl_one)
  next
    case False
    show ?thesis
      unfolding analyzeSentiment64_def analyzeSentiment64With_nonempty [OF False assms]
      using False by simp
  qed
  note sh = counts_shares [OF assms tokenize_not_Nil]
  have nn: "0 \<le> real positiveCount / real ?n" "0 \<le> real negativeCount / real ?n"
    by simp_all
  note rb = residual_bounds(3)
    [OF nn sh(5) fdiv_share [OF sh(1) sh(4)] fdiv_share [OF sh(2) sh(4)]]
  note sb = binary64_sum_bound
    [OF nn sh(5) fdiv_share [OF sh(1) sh(4)] fdiv_share [OF sh(2) sh(4)]]
  from fields rb have sum: "\<bar>positiveScore ?r + negativeScore ?r + neutralScore ?r - 1\<bar>
      \<le> 1 / 2 ^ 53"
    by simp
  from fields sb have fsum: "\<bar>fadd (fadd (positiveScore ?r) (negativeScore ?r))
      (neutralScore ?r) - 1\<bar> \<le> 1 / 2 ^ 51"
    by simp
  from sum have "\<bar>positiveScore ?r + negativeScore ?r + neutralScore ?r - 1\<bar> \<le> 1 / 10 ^ 9"
    using tol by (rule order_trans)
  with sum fsum fields show ?thesis by blast
qed

text \<open>
  One positive word among three tokens, none of the neutral list: positiveScore is the
  binary64 value of a third, and neutralScore is about two thirds although neutralCount
  is 0.
\<close>

theorem scores_sum_within_tolerance_witness:
  "countWords positiveWords negativeWords neutralWords (tokenize ''one third good'') = (1, 0, 0)
   \<and> positiveScore (analyzeSentiment64 0 ''one third good'') = fdiv 1 3
   \<and> neutralScore (analyzeSentiment64 0 ''one third good'')
        = 3002399751580331 / 4503599627370496
   \<and> \<bar>positiveScore (analyzeSentiment64 0 ''one third good'')
        + negativeScore (analyzeSentiment64 0 ''one third good'')
        + neutralScore (analyzeSentiment64 0 ''one third good'') - 1\<bar> \<le> 1 / 2 ^ 53"
proof -
  have h: "countWords positiveWords negativeWords neutralWords (tokenize ''one third good'')
            = (1, 0, 0)" by code_simp
  have n: "length (tokenize ''one third good'') = 3" by code_simp
  have v: "fsub (fsub 1 (fdiv 1 3)) (fdiv 0 3) = 3002399751580331 / 4503599627370496"
    by code_simp
  note th = scores_sum_within_tolerance [OF h, of 0]
  from th have a: "\<bar>positiveScore (analyzeSentiment64 0 ''one third good'')
        + negativeScore (analyzeSentiment64 0 ''one third good'')
        + neutralScore (analyzeSentiment64 0 ''one third good'') - 1\<bar> \<le> 1 / 2 ^ 53"
    by blast
  from th have "positiveScore (analyzeSentiment64 0 ''one third good'')
      = fdiv (real 1) (real (length (tokenize ''one third good'')))"
    by blast
  then have b: "positiveScore (analyzeSentiment64 0 ''one third good'') = fdiv 1 3"
    by (simp add: n)
  from th have "negativeScore (analyzeSentiment64 0 ''one third good'')
      = fdiv (real 0) (real (length (tokenize ''one third good'')))"
    by blast
  then have c: "negativeScore (analyzeSentiment64 0 ''one third good'') = fdiv 0 3"
    by (simp add: n)
  from th have "neutralScore (analyzeSentiment64 0 ''one third good'')
      = fsub (fsub 1 (positiveScore (analyzeSentiment64 0 ''one third good'')))
          (negativeScore (analyzeSentiment64 0 ''one third good''))"
    by blast
  then have d: "neutralScore (analyzeSentiment64 0 ''one third good'')
      = 3002399751580331 / 4503599627370496"
    by (simp only: b c v)
  from h a b d show ?thesis by blast
qed

section \<open>The tokens of a blank input\<close>

lemma tagWord_empty:
  "tagWord positiveWords negativeWords neutralWords [] = \<lparr> word = [], sentiment = Neutral, score = 0 \<rparr>"
  by (simp add: tagWord_def empty_word_unlisted)

text \<open>
  \<^verbatim>\<open>split\<close> never returns an empty array, and \<open>getWordSentiments\<close> has no guard on the
  trimmed input as \<open>analyzeSentiment\<close> has. So an input whose trim is empty has only
  empty-string tokens, one for the empty string and two for a string of white space, and
  \<open>getWordSentiments\<close> returns one neutral tag with the empty word for each.
\<close>

lemma blank_input_tokens:
  assumes "trim inputText = []"
  shows "tokenize inputText = (if inputText = [] then [''''] else ['''', ''''])
       \<and> getWordSentiments inputText
           = (if inputText = [] then [\<lparr> word = '''', sentiment = Neutral, score = 0 \<rparr>]
              else [\<lparr> word = '''', sentiment = Neutral, score = 0 \<rparr>,
                    \<lparr> word = '''', sentiment = Neutral, score = 0 \<rparr>])"
  by (simp add: tokenize_all_space [OF assms] getWordSentiments_def getWordSentimentsWith_def
      tagWord_empty)

text \<open>
  C5. The spec gives an empty or blank input no token and an empty sequence of tags. The
  code returns tokens and tags for it: the three-space string, whose trim is empty, has
  the two empty tokens and gets two tags, and the empty string has one empty token and
  gets one tag.
\<close>

theorem blank_input_tags:
  "trim ''   '' = [] \<and> tokenize ''   '' = ['''', '''']
   \<and> getWordSentiments ''   '' =
       [\<lparr> word = '''', sentiment = Neutral, score = 0 \<rparr>,
        \<lparr> word = '''', sentiment = Neutral, score = 0 \<rparr>]
   \<and> tokenize '''' = [''''] \<and> length (getWordSentiments '''') = 1"
  by code_simp

section \<open>The tokenizer\<close>












section \<open>The word tags\<close>

lemma tagWord_fields:
  "word (tagWord pos neg neu w) = w"
  "sentiment (tagWord pos neg neu w) =
     (if w \<in> set pos then Positive else if w \<in> set neg then Negative else Neutral)"
  "score (tagWord pos neg neu w) = (if w \<in> set pos then 1 else if w \<in> set neg then - 1 else 0)"
  by (simp_all add: tagWord_def)

lemma positive_tags:
  "length (filter (\<lambda>t. sentiment t = Positive) (map (tagWord pos neg neu) ws))
     = length (filter (\<lambda>w. w \<in> set pos) ws)"
  by (induction ws) (simp_all add: tagWord_fields)

lemma negative_tags:
  "length (filter (\<lambda>t. sentiment t = Negative) (map (tagWord pos neg neu) ws))
     = length (filter (\<lambda>w. w \<notin> set pos \<and> w \<in> set neg) ws)"
  by (induction ws) (simp_all add: tagWord_fields)

text \<open>
  Past the guard of \<open>analyzeSentiment\<close> the tags agree with the result: when the trimmed
  input is not empty, there are as many tags as \<open>analyzeSentiment\<close> reports words, the
  number of positive tags is the positiveCount of the counting loop and the number of
  negative tags its negativeCount.
\<close>

lemma tags_agree_with_counts:
  assumes "trim inputText \<noteq> []"
    and "countWords positiveWords negativeWords neutralWords (tokenize inputText)
          = (positiveCount, negativeCount, neutralCount)"
  shows "length (getWordSentiments inputText) = wordCount (analyzeSentiment now inputText)
       \<and> wordCount (analyzeSentiment now inputText) = length (tokenize inputText)
       \<and> length (filter (\<lambda>t. sentiment t = Positive) (getWordSentiments inputText))
            = positiveCount
       \<and> length (filter (\<lambda>t. sentiment t = Negative) (getWordSentiments inputText))
            = negativeCount
       \<and> positiveScore (analyzeSentiment now inputText)
            = real (length (filter (\<lambda>t. sentiment t = Positive) (getWordSentiments inputText)))
                / real (length (getWordSentiments inputText))
       \<and> negativeScore (analyzeSentiment now inputText)
            = real (length (filter (\<lambda>t. sentiment t = Negative) (getWordSentiments inputText)))
                / real (length (getWordSentiments inputText))"
proof -
  have len: "length (getWordSentiments inputText) = length (tokenize inputText)"
    by (simp add: getWordSentiments_def getWordSentimentsWith_def)
  have wc: "wordCount (analyzeSentiment now inputText) = length (tokenize inputText)"
    and ps: "positiveScore (analyzeSentiment now inputText)
              = real positiveCount / real (length (tokenize inputText))"
    and ns: "negativeScore (analyzeSentiment now inputText)
              = real negativeCount / real (length (tokenize inputText))"
    unfolding analyzeSentiment_def analyzeSentimentWith_nonempty [OF assms] by simp_all
  have p: "length (filter (\<lambda>t. sentiment t = Positive) (getWordSentiments inputText))
            = positiveCount"
    unfolding getWordSentiments_def getWordSentimentsWith_def positive_tags
    using assms(2) by (simp add: countWords_filter)
  have n: "length (filter (\<lambda>t. sentiment t = Negative) (getWordSentiments inputText))
            = negativeCount"
    unfolding getWordSentiments_def getWordSentimentsWith_def negative_tags
    using assms(2) by (simp add: countWords_filter)
  from len wc ps ns p n show ?thesis by simp
qed

text \<open>Two positive words and one negative word among four tokens.\<close>

lemma tags_agree_with_counts_example:
  "trim ''Good, bad and good.'' \<noteq> []
   \<and> countWords positiveWords negativeWords neutralWords (tokenize ''Good, bad and good.'')
       = (2, 1, 0)
   \<and> length (getWordSentiments ''Good, bad and good.'') = 4
   \<and> wordCount (analyzeSentiment 0 ''Good, bad and good.'') = 4
   \<and> length (filter (\<lambda>t. sentiment t = Positive) (getWordSentiments ''Good, bad and good.'')) = 2
   \<and> length (filter (\<lambda>t. sentiment t = Negative) (getWordSentiments ''Good, bad and good.'')) = 1
   \<and> positiveScore (analyzeSentiment 0 ''Good, bad and good.'') = 1 / 2
   \<and> negativeScore (analyzeSentiment 0 ''Good, bad and good.'') = 1 / 4"
proof -
  have t: "trim ''Good, bad and good.'' \<noteq> []" by code_simp
  have h: "countWords positiveWords negativeWords neutralWords (tokenize ''Good, bad and good.'')
            = (2, 1, 0)" by code_simp
  have n: "length (tokenize ''Good, bad and good.'') = 4" by code_simp
  from tags_agree_with_counts [OF t h, of 0] h t n show ?thesis by simp
qed

text \<open>
  C7. The spec has as many tags as \<open>analyzeSentiment\<close> reports words, for every input.
  \<open>getWordSentiments\<close> has no guard on the trimmed input, so for the three-space string,
  whose trim is empty, it returns two tags while \<open>analyzeSentiment\<close> reports the word
  count 0, and for the empty string one tag against the word count 0.
\<close>

theorem blank_input_tag_count:
  "trim ''   '' = []
   \<and> length (getWordSentiments ''   '') = 2
   \<and> wordCount (analyzeSentiment 0 ''   '') = 0
   \<and> wordCount (analyzeSentiment64 0 ''   '') = 0
   \<and> length (getWordSentiments '''') = 1
   \<and> wordCount (analyzeSentiment 0 '''') = 0"
  by code_simp

text \<open>
  C8. \<open>getWordSentiments\<close> returns one tag per token, in the order of the tokens and with
  repetitions, the word of each tag being its token. A token of the positive list is
  tagged positive with score 1, a token of the negative list negative with score -1, a
  token of the neutral list neutral with score 0, and a token of no list neutral with
  score 0.
\<close>

theorem one_tag_per_token:
  "length (getWordSentiments inputText) = length (tokenize inputText)
   \<and> map word (getWordSentiments inputText) = tokenize inputText
   \<and> (\<forall>i < length (tokenize inputText).
        (tokenize inputText ! i \<in> set positiveWords \<longrightarrow>
           sentiment (getWordSentiments inputText ! i) = Positive
           \<and> score (getWordSentiments inputText ! i) = 1)
      \<and> (tokenize inputText ! i \<in> set negativeWords \<longrightarrow>
           sentiment (getWordSentiments inputText ! i) = Negative
           \<and> score (getWordSentiments inputText ! i) = - 1)
      \<and> (tokenize inputText ! i \<in> set neutralWords \<longrightarrow>
           sentiment (getWordSentiments inputText ! i) = Neutral
           \<and> score (getWordSentiments inputText ! i) = 0)
      \<and> (tokenize inputText ! i \<notin> set positiveWords \<union> set negativeWords \<union> set neutralWords \<longrightarrow>
           sentiment (getWordSentiments inputText ! i) = Neutral
           \<and> score (getWordSentiments inputText ! i) = 0))"
proof -
  have w: "map word (getWordSentiments inputText) = tokenize inputText"
    by (simp add: getWordSentiments_def getWordSentimentsWith_def tagWord_fields comp_def)
  have "getWordSentiments inputText ! i
          = tagWord positiveWords negativeWords neutralWords (tokenize inputText ! i)"
    if "i < length (tokenize inputText)" for i
    using that by (simp add: getWordSentiments_def getWordSentimentsWith_def)
  then show ?thesis
    using w shipped_lists_disjoint
    by (auto simp: tagWord_fields getWordSentiments_def getWordSentimentsWith_def)
qed

text \<open>Five tokens, one of them repeated; the token at index 2 is in the positive list.\<close>

theorem one_tag_per_token_witness:
  "getWordSentiments ''Bad okay GOOD cat bad'' =
     [\<lparr> word = ''bad'', sentiment = Negative, score = - 1 \<rparr>,
      \<lparr> word = ''okay'', sentiment = Neutral, score = 0 \<rparr>,
      \<lparr> word = ''good'', sentiment = Positive, score = 1 \<rparr>,
      \<lparr> word = ''cat'', sentiment = Neutral, score = 0 \<rparr>,
      \<lparr> word = ''bad'', sentiment = Negative, score = - 1 \<rparr>]
   \<and> tokenize ''Bad okay GOOD cat bad'' ! 2 \<in> set positiveWords
   \<and> (2::nat) < length (tokenize ''Bad okay GOOD cat bad'')
   \<and> sentiment (getWordSentiments ''Bad okay GOOD cat bad'' ! 2) = Positive"
proof -
  have g: "getWordSentiments ''Bad okay GOOD cat bad'' =
     [\<lparr> word = ''bad'', sentiment = Negative, score = - 1 \<rparr>,
      \<lparr> word = ''okay'', sentiment = Neutral, score = 0 \<rparr>,
      \<lparr> word = ''good'', sentiment = Positive, score = 1 \<rparr>,
      \<lparr> word = ''cat'', sentiment = Neutral, score = 0 \<rparr>,
      \<lparr> word = ''bad'', sentiment = Negative, score = - 1 \<rparr>]" by code_simp
  have m: "tokenize ''Bad okay GOOD cat bad'' ! 2 \<in> set positiveWords" by code_simp
  have l: "(2::nat) < length (tokenize ''Bad okay GOOD cat bad'')" by code_simp
  from one_tag_per_token [of "''Bad okay GOOD cat bad''"] m l
  have "sentiment (getWordSentiments ''Bad okay GOOD cat bad'' ! 2) = Positive" by blast
  with g m l show ?thesis by blast
qed

section \<open>Totality and well-formed results\<close>

text \<open>
  The spec gives neutralScore the range from 0 to 1. The rounded residual can fall
  below 0: with four positive words and one negative word among five tokens it is
  \<open>- 2 ^ (- 54)\<close>, the \<^verbatim>\<open>-5.551115123125783e-17\<close> of \<^verbatim>\<open>1 - 0.8 - 0.2\<close>.
\<close>

theorem negative_residual_counterexample:
  "neutralScore (analyzeSentiment64 0 ''good good good good bad'') = - (1 / 2 ^ 54)
   \<and> neutralScore (analyzeSentiment64 0 ''good good good good bad'') < 0"
proof -
  have r: "neutralScore (analyzeSentiment64 0 ''good good good good bad'') = - (1 / 2 ^ 54)"
    by code_simp
  show ?thesis unfolding r by simp
qed

text \<open>
  C9, in binary64. Both functions return a value on every string: no branch of the source
  raises, and the one recursion of the model, \<open>splitFrom\<close>, terminates. The two divisors,
  \<^verbatim>\<open>totalWords\<close> and \<^verbatim>\<open>Math.max(totalWords, 1)\<close>, are positive, since the tokens are
  never an empty sequence, so no quotient is a division by zero. The confidence,
  positiveScore and negativeScore lie between 0 and 1, neutralScore lies between
  \<open>- 2 ^ (- 52)\<close> and 1, the word count and the time are as the code sets them, and
  every tag pairs positive with 1, negative with -1 or neutral with 0.
\<close>

theorem total_and_well_formed:
  "0 < length (tokenize inputText)
   \<and> 0 < max (length (tokenize inputText)) 1
   \<and> 0 \<le> confidence (analyzeSentiment64 now inputText)
   \<and> confidence (analyzeSentiment64 now inputText) \<le> 1
   \<and> 0 \<le> positiveScore (analyzeSentiment64 now inputText)
   \<and> positiveScore (analyzeSentiment64 now inputText) \<le> 1
   \<and> 0 \<le> negativeScore (analyzeSentiment64 now inputText)
   \<and> negativeScore (analyzeSentiment64 now inputText) \<le> 1
   \<and> - (1 / 2 ^ 52) \<le> neutralScore (analyzeSentiment64 now inputText)
   \<and> neutralScore (analyzeSentiment64 now inputText) \<le> 1
   \<and> wordCount (analyzeSentiment64 now inputText)
        = (if trim inputText = [] then 0 else length (tokenize inputText))
   \<and> timestamp (analyzeSentiment64 now inputText) = now
   \<and> length (getWordSentiments inputText) = length (tokenize inputText)
   \<and> (\<forall>t \<in> set (getWordSentiments inputText).
        (sentiment t = Positive \<and> score t = 1)
        \<or> (sentiment t = Negative \<and> score t = - 1)
        \<or> (sentiment t = Neutral \<and> score t = 0))"
proof -
  let ?r = "analyzeSentiment64 now inputText"
  have tags: "\<forall>t \<in> set (getWordSentiments inputText).
        (sentiment t = Positive \<and> score t = 1)
        \<or> (sentiment t = Negative \<and> score t = - 1)
        \<or> (sentiment t = Neutral \<and> score t = 0)"
    by (auto simp: getWordSentiments_def getWordSentimentsWith_def tagWord_fields)
  have len: "length (getWordSentiments inputText) = length (tokenize inputText)"
    by (simp add: getWordSentiments_def getWordSentimentsWith_def)
  have result: "0 \<le> confidence ?r \<and> confidence ?r \<le> 1
   \<and> 0 \<le> positiveScore ?r \<and> positiveScore ?r \<le> 1
   \<and> 0 \<le> negativeScore ?r \<and> negativeScore ?r \<le> 1
   \<and> - (1 / 2 ^ 52) \<le> neutralScore ?r \<and> neutralScore ?r \<le> 1
   \<and> wordCount ?r = (if trim inputText = [] then 0 else length (tokenize inputText))
   \<and> timestamp ?r = now"
  proof (cases "trim inputText = []")
    case True
    then show ?thesis by (simp add: analyzeSentiment64_def analyzeSentiment64With_def)
  next
    case False
    obtain pc nc uc where
      cnt: "countWords positiveWords negativeWords neutralWords (tokenize inputText) = (pc, nc, uc)"
      by (cases "countWords positiveWords negativeWords neutralWords (tokenize inputText)") auto
    let ?n = "length (tokenize inputText)"
    note sh = counts_shares [OF cnt tokenize_not_Nil]
    note p = fdiv_share [OF sh(1) sh(4)]
    note n = fdiv_share [OF sh(2) sh(4)]
    have "0 \<le> real pc / real ?n" "0 \<le> real nc / real ?n" by simp_all
    note rb = residual_bounds [OF this sh(5) p n]
    note c = decide64_confidence_bounds [of pc nc uc ?n]
    have f: "confidence ?r = snd (decide64 pc nc uc ?n)"
      "positiveScore ?r = fdiv (real pc) (real ?n)"
      "negativeScore ?r = fdiv (real nc) (real ?n)"
      "neutralScore ?r = fsub (fsub 1 (fdiv (real pc) (real ?n))) (fdiv (real nc) (real ?n))"
      unfolding analyzeSentiment64_def analyzeSentiment64With_nonempty [OF False cnt] by simp_all
    have g: "wordCount ?r = (if trim inputText = [] then 0 else ?n)"
      "timestamp ?r = now"
      unfolding analyzeSentiment64_def analyzeSentiment64With_nonempty [OF False cnt]
      using False by simp_all
    from p(1,2) n(1,2) rb(1,2) c g show ?thesis unfolding f by blast
  qed
  from tags len result tokenize_length_pos [of inputText] show ?thesis
    by simp
qed

text \<open>An input of punctuation only: one empty token, word count 1.\<close>

theorem total_and_well_formed_witness:
  "getWordSentiments ''!!!'' = [\<lparr> word = '''', sentiment = Neutral, score = 0 \<rparr>]
   \<and> trim ''!!!'' \<noteq> []
   \<and> length (tokenize ''!!!'') = 1
   \<and> wordCount (analyzeSentiment64 0 ''!!!'') = 1
   \<and> timestamp (analyzeSentiment64 0 ''!!!'') = 0
   \<and> 0 \<le> confidence (analyzeSentiment64 0 ''!!!'')
   \<and> confidence (analyzeSentiment64 0 ''!!!'') \<le> 1
   \<and> - (1 / 2 ^ 52) \<le> neutralScore (analyzeSentiment64 0 ''!!!'')"
proof -
  have g: "getWordSentiments ''!!!'' = [\<lparr> word = '''', sentiment = Neutral, score = 0 \<rparr>]"
    by code_simp
  have t: "trim ''!!!'' \<noteq> []" by code_simp
  have l: "length (tokenize ''!!!'') = 1" by code_simp
  from total_and_well_formed [of "''!!!''" 0] g t l show ?thesis by simp
qed

section \<open>The order of the lookups\<close>

text \<open>
  C10. For any three word lists, disjoint or not, a token is looked up in the positive
  list first, then in the negative list, then in the neutral list, in the counting loop
  as in the tagger: the first list that has it decides both the counter that grows by
  one and the tag. So each token adds to at most one counter, the counters are the
  numbers of tokens decided by each list, their sum is at most the number of tokens, and
  the labels of \<open>getWordSentimentsWith\<close> and the scores of \<open>analyzeSentimentWith\<close>
  follow the same rule.
\<close>

theorem first_list_wins:
  "(w \<in> set pos \<longrightarrow>
      countWord pos neg neu w (a, b, c) = (a + 1, b, c)
      \<and> sentiment (tagWord pos neg neu w) = Positive \<and> score (tagWord pos neg neu w) = 1)
   \<and> (w \<notin> set pos \<and> w \<in> set neg \<longrightarrow>
      countWord pos neg neu w (a, b, c) = (a, b + 1, c)
      \<and> sentiment (tagWord pos neg neu w) = Negative \<and> score (tagWord pos neg neu w) = - 1)
   \<and> (w \<notin> set pos \<and> w \<notin> set neg \<and> w \<in> set neu \<longrightarrow>
      countWord pos neg neu w (a, b, c) = (a, b, c + 1)
      \<and> sentiment (tagWord pos neg neu w) = Neutral \<and> score (tagWord pos neg neu w) = 0)
   \<and> (w \<notin> set pos \<and> w \<notin> set neg \<and> w \<notin> set neu \<longrightarrow>
      countWord pos neg neu w (a, b, c) = (a, b, c)
      \<and> sentiment (tagWord pos neg neu w) = Neutral \<and> score (tagWord pos neg neu w) = 0)
   \<and> countWords pos neg neu ws =
       (length (filter (\<lambda>w. w \<in> set pos) ws),
        length (filter (\<lambda>w. w \<notin> set pos \<and> w \<in> set neg) ws),
        length (filter (\<lambda>w. w \<notin> set pos \<and> w \<notin> set neg \<and> w \<in> set neu) ws))
   \<and> fst (countWords pos neg neu ws) + fst (snd (countWords pos neg neu ws))
        + snd (snd (countWords pos neg neu ws)) \<le> length ws
   \<and> map sentiment (getWordSentimentsWith pos neg neu inputText) =
       map (\<lambda>w. if w \<in> set pos then Positive else if w \<in> set neg then Negative else Neutral)
         (tokenize inputText)
   \<and> (trim inputText \<noteq> [] \<longrightarrow>
        positiveScore (analyzeSentimentWith pos neg neu now inputText)
          = real (length (filter (\<lambda>w. w \<in> set pos) (tokenize inputText)))
              / real (length (tokenize inputText))
        \<and> negativeScore (analyzeSentimentWith pos neg neu now inputText)
          = real (length (filter (\<lambda>w. w \<notin> set pos \<and> w \<in> set neg) (tokenize inputText)))
              / real (length (tokenize inputText)))"
proof -
  have step: "(w \<in> set pos \<longrightarrow>
      countWord pos neg neu w (a, b, c) = (a + 1, b, c)
      \<and> sentiment (tagWord pos neg neu w) = Positive \<and> score (tagWord pos neg neu w) = 1)
   \<and> (w \<notin> set pos \<and> w \<in> set neg \<longrightarrow>
      countWord pos neg neu w (a, b, c) = (a, b + 1, c)
      \<and> sentiment (tagWord pos neg neu w) = Negative \<and> score (tagWord pos neg neu w) = - 1)
   \<and> (w \<notin> set pos \<and> w \<notin> set neg \<and> w \<in> set neu \<longrightarrow>
      countWord pos neg neu w (a, b, c) = (a, b, c + 1)
      \<and> sentiment (tagWord pos neg neu w) = Neutral \<and> score (tagWord pos neg neu w) = 0)
   \<and> (w \<notin> set pos \<and> w \<notin> set neg \<and> w \<notin> set neu \<longrightarrow>
      countWord pos neg neu w (a, b, c) = (a, b, c)
      \<and> sentiment (tagWord pos neg neu w) = Neutral \<and> score (tagWord pos neg neu w) = 0)"
    by (simp add: countWord_def tagWord_fields)
  have total: "fst (countWords pos neg neu ws) + fst (snd (countWords pos neg neu ws))
        + snd (snd (countWords pos neg neu ws)) \<le> length ws"
    using counts_le_length [of pos neg neu ws]
    by (cases "countWords pos neg neu ws") auto
  have tags: "map sentiment (getWordSentimentsWith pos neg neu inputText) =
       map (\<lambda>w. if w \<in> set pos then Positive else if w \<in> set neg then Negative else Neutral)
         (tokenize inputText)"
    by (simp add: getWordSentimentsWith_def tagWord_fields comp_def)
  have scores: "positiveScore (analyzeSentimentWith pos neg neu now inputText)
          = real (length (filter (\<lambda>w. w \<in> set pos) (tokenize inputText)))
              / real (length (tokenize inputText))
        \<and> negativeScore (analyzeSentimentWith pos neg neu now inputText)
          = real (length (filter (\<lambda>w. w \<notin> set pos \<and> w \<in> set neg) (tokenize inputText)))
              / real (length (tokenize inputText))"
    if "trim inputText \<noteq> []"
    unfolding analyzeSentimentWith_nonempty [OF that countWords_filter] by simp
  from step total tags scores countWords_filter [of pos neg neu ws] show ?thesis
    by blast
qed

text \<open>
  Overlapping lists: \<open>x\<close> is positive and negative, \<open>y\<close> negative and neutral. The
  first list wins for both.
\<close>

theorem first_list_wins_witness:
  "''x'' \<in> set [''x''] \<and> ''x'' \<in> set [''x'', ''y'']
   \<and> countWord [''x''] [''x'', ''y''] [''y'', ''z''] ''x'' (0, 0, 0) = (1, 0, 0)
   \<and> sentiment (tagWord [''x''] [''x'', ''y''] [''y'', ''z''] ''x'') = Positive
   \<and> ''y'' \<notin> set [''x''] \<and> ''y'' \<in> set [''x'', ''y''] \<and> ''y'' \<in> set [''y'', ''z'']
   \<and> countWord [''x''] [''x'', ''y''] [''y'', ''z''] ''y'' (0, 0, 0) = (0, 1, 0)
   \<and> sentiment (tagWord [''x''] [''x'', ''y''] [''y'', ''z''] ''y'') = Negative
   \<and> countWords [''x''] [''x'', ''y''] [''y'', ''z''] [''x'', ''y'', ''z'', ''q'', ''x''] = (2, 1, 1)"
proof -
  note a = first_list_wins [of "''x''" "[''x'']" "[''x'', ''y'']" "[''y'', ''z'']" 0 0 0
      "[''x'', ''y'', ''z'', ''q'', ''x'']" "''x y''" 0]
  note b = first_list_wins [of "''y''" "[''x'']" "[''x'', ''y'']" "[''y'', ''z'']" 0 0 0
      "[]" "''x y''" 0]
  from a b show ?thesis by simp
qed

end
